theory Spec2Isabelle
  imports Main "HOL-Library.Word"
begin

section \<open>WavAudioPlayer: option dispatch and playback session (src/main.cpp)\<close>

text \<open>
  The program is one translation unit. Everything in namespace \<open>MinimalAudioEngine\<close>
  (device manager, file manager, track manager, track, core engine, logger) is an external
  library: its answers are parameters of the model (the record \<open>env\<close>), and every call
  the program makes to it, every line it prints and every message it logs is appended to
  a trace kept in the process state, in program order.
\<close>

subsection \<open>Data\<close>

text \<open>\<open>unsigned int\<close> device identifiers.\<close>

type_synonym uint = "32 word"

text \<open>The fields of an audio device that \<open>main.cpp\<close> reads (lines 48 and 56).\<close>

record device =
  dev_id :: uint
  dev_name :: string
  input_channels :: nat
  output_channels :: nat

text \<open>The decoded source returned by \<open>read_wav_file\<close>: opaque to the program.\<close>

datatype wav_file = WavFile nat

text \<open>
  \<open>eTrackEvent\<close>: the program names one enumerator, \<open>PlaybackFinished\<close>; the others
  are kept apart by a number.
\<close>

datatype eTrackEvent = PlaybackFinished | OtherTrackEvent nat

datatype exn = invalid_argument | out_of_range

text \<open>
  How the process stands when the model stops following it: \<open>Exit c\<close> for
  \<open>std::exit(c)\<close> and for \<open>return c\<close> from \<open>main\<close>; \<open>Terminate e\<close> for an exception that
  nothing catches; \<open>Undefined_Behaviour\<close> for a \<open>std::string\<close> built from a null
  pointer; \<open>Polling\<close> when the schedule of asynchronous events has been used up and the
  supervising loop is still going round.
\<close>

datatype status = Exit int | Terminate exn | Undefined_Behaviour | Polling

datatype event =
    Stdout string
  | Stderr string
  | LogInfo string
  | LogError string
  | GetAudioDevices
  | GetAudioDevice uint
  | GetDefaultAudioOutputDevice
  | IsWavFile string
  | ReadWavFile string
  | StartThread
  | SignalSIGINT
  | AddTrack
  | GetTrack nat
  | AddAudioDeviceOutput device
  | AddAudioFileInput wav_file
  | SetEventCallback
  | Play
  | TrackStop
  | StopThread
  | IsRunning
  | SleepFor nat

text \<open>
  The answers of the external library. \<open>get_audio_device\<close> gives a device and not an
  optional one: line 56 reads its \<open>id\<close> member, and in the conditional expression of
  line 149 it is the other operand that makes the result optional. A lookup that finds
  nothing is seen by the program only as a device with another id. \<open>get_track\<close> tells
  whether the pointer returned is non-null. \<open>start_thread()\<close> is called for its effect
  only; \<open>thread_starts\<close> is what \<open>is_running()\<close> reports after it.
\<close>

record env =
  get_audio_devices :: "device list"
  get_audio_device :: "uint \<Rightarrow> device"
  get_default_audio_output_device :: "device option"
  to_string :: "device \<Rightarrow> string"
  is_wav_file :: "string \<Rightarrow> bool"
  read_wav_file :: "string \<Rightarrow> wav_file option"
  add_track :: nat
  get_track :: "nat \<Rightarrow> bool"
  thread_starts :: bool

text \<open>
  The statics of lines 29 to 32, the running state of the local \<open>engine\<close> as
  \<open>is_running()\<close> reports it, and the trace. What the destructor of \<open>engine\<close> does
  when \<open>main\<close> returns belongs to the library and is not part of the model.
\<close>

record pstate =
  program_name :: string
  running :: bool
  input_file_path :: "string option"
  audio_output_device_id :: "uint option"
  engine_running :: bool
  trace :: "event list"

definition initial_state :: pstate where
  "initial_state =
     \<lparr>program_name = '''', running = True, input_file_path = None,
      audio_output_device_id = None, engine_running = False, trace = []\<rparr>"

definition emit :: "event \<Rightarrow> pstate \<Rightarrow> pstate" where
  "emit e st = st\<lparr>trace := trace st @ [e]\<rparr>"

definition emits :: "event list \<Rightarrow> pstate \<Rightarrow> pstate" where
  "emits es st = st\<lparr>trace := trace st @ es\<rparr>"

subsection \<open>Text output\<close>

definition nl :: string where
  "nl = [CHR 0x0A]"

definition tab :: string where
  "tab = [CHR 0x09]"

definition digit_char :: "nat \<Rightarrow> char" where
  "digit_char d = ''0123456789'' ! d"

text \<open>\<open>operator<<\<close> on an unsigned number: decimal, no padding.\<close>

fun show_nat :: "nat \<Rightarrow> string" where
  "show_nat n = (if n < 10 then [digit_char n] else show_nat (n div 10) @ [digit_char (n mod 10)])"

declare show_nat.simps [simp del]

definition VERSION_NUMBER :: string where
  "VERSION_NUMBER = ''1.0.0''"

subsection \<open>\<open>std::stoi\<close>\<close>

definition isspace :: "char \<Rightarrow> bool" where
  "isspace c = (of_char c \<in> {32, 9, 10, 11, 12, 13 :: nat})"

definition isdigit :: "char \<Rightarrow> bool" where
  "isdigit c = (48 \<le> (of_char c :: nat) \<and> (of_char c :: nat) \<le> 57)"

definition digits_value :: "string \<Rightarrow> int" where
  "digits_value ds = foldl (\<lambda>acc c. acc * 10 + (int (of_char c) - 48)) 0 ds"

text \<open>
  Base 10 with no position argument: leading white space is skipped, one sign is
  accepted, the longest run of digits is converted and what follows is ignored. No digit
  raises \<open>invalid_argument\<close>, a value that does not fit \<open>int\<close> raises \<open>out_of_range\<close>.
\<close>

definition stoi :: "string \<Rightarrow> exn + int" where
  "stoi s =
     (let s1 = dropWhile isspace s;
          neg = (s1 \<noteq> [] \<and> hd s1 = CHR ''-'');
          s2 = (if s1 \<noteq> [] \<and> (hd s1 = CHR ''-'' \<or> hd s1 = CHR ''+'') then tl s1 else s1);
          ds = takeWhile isdigit s2;
          v = (if neg then - digits_value ds else digits_value ds)
      in if ds = [] then Inl invalid_argument
         else if v < - (2 ^ 31) \<or> 2 ^ 31 - 1 < v then Inl out_of_range
         else Inr v)"

subsection \<open>The option table (lines 16 to 63)\<close>

text \<open>
  A \<open>Command\<close> stores a closure. The table is read by \<open>help\<close>, which is itself one of
  the stored actions, so the model stores a tag in the \<open>action\<close> field and \<open>invoke\<close> maps
  each tag to the body of its closure.
\<close>

datatype action_id = Help | Version | InputFile | ListAudioDevices | SetAudioOutput

record command =
  argument :: string
  argument_short :: string
  description :: string
  action :: action_id

definition Command :: "string \<Rightarrow> string \<Rightarrow> string \<Rightarrow> action_id \<Rightarrow> command" where
  "Command arg arg_short desc act =
     \<lparr>argument = arg, argument_short = arg_short, description = desc, action = act\<rparr>"

definition commands :: "command list" where
  "commands =
     [Command ''--help'' ''-h'' ''Show help message'' Help,
      Command ''--version'' ''-v'' ''Show version information'' Version,
      Command ''--input-file'' ''-i'' ''Specify input WAV file'' InputFile,
      Command ''--list-audio-devices'' ''-ld'' ''List available audio devices'' ListAudioDevices,
      Command ''--set-audio-output'' ''-o'' ''Specify audio output device by ID'' SetAudioOutput]"

text \<open>
  An action gets the process state and the argument pointer (\<open>None\<close> is \<open>nullptr\<close>). It
  gives back the new state and \<open>None\<close> when it returns to the caller, or the status in
  which the process stopped.
\<close>

type_synonym action_fn = "string option \<Rightarrow> pstate \<Rightarrow> status option \<times> pstate"

text \<open>\<open>help\<close> (lines 65 to 78); the name is a keyword of Isabelle.\<close>

definition help_action :: action_fn where
  "help_action arg st =
     (Some (Exit 0),
      emits
        ([Stdout (''WavAudioPlayer - A simple WAV audio player using Minimal Audio Engine'' @ nl),
          Stdout (''Usage: '' @ program_name st @ '' [options]'' @ nl @ nl),
          Stdout (''Options:'' @ nl)]
         @ map (\<lambda>c. Stdout (''  '' @ argument c @ '', '' @ argument_short c @ tab
                              @ description c @ nl)) commands
         @ [Stdout nl]) st)"

definition version_action :: action_fn where
  "version_action arg st =
     (Some (Exit 0), emit (Stdout (''WavAudioPlayer Version '' @ VERSION_NUMBER @ nl)) st)"

definition input_file_action :: action_fn where
  "input_file_action arg st =
     (case arg of
        None \<Rightarrow> (Some Undefined_Behaviour, st)
      | Some a \<Rightarrow> (None, st\<lparr>input_file_path := Some a\<rparr>))"

definition device_line :: "device \<Rightarrow> string" where
  "device_line d =
     ''  ID: '' @ show_nat (unat (dev_id d)) @ '', Name: '' @ dev_name d
     @ '', (Input Channels: '' @ show_nat (input_channels d)
     @ '', Output Channels: '' @ show_nat (output_channels d) @ '')'' @ nl"

definition list_audio_devices_action :: "env \<Rightarrow> action_fn" where
  "list_audio_devices_action env arg st =
     (Some (Exit 0),
      emits
        ([GetAudioDevices, Stdout (''Available Audio Devices:'' @ nl)]
         @ map (\<lambda>d. Stdout (device_line d)) (get_audio_devices env)) st)"

definition no_device_message :: "uint \<Rightarrow> string" where
  "no_device_message device_id =
     ''Error: No audio device found with ID '' @ show_nat (unat device_id) @ ''.'' @ nl"

definition set_audio_output_action :: "env \<Rightarrow> action_fn" where
  "set_audio_output_action env arg st =
     (case arg of
        None \<Rightarrow> (Some Undefined_Behaviour, st)
      | Some a \<Rightarrow>
          (case stoi a of
             Inl e \<Rightarrow> (Some (Terminate e), st)
           | Inr v \<Rightarrow>
               (let device_id = (word_of_int v :: uint);
                    st1 = emit (GetAudioDevice device_id) st;
                    audio_device = get_audio_device env device_id
                in if dev_id audio_device \<noteq> device_id
                   then (Some (Exit 1), emit (Stderr (no_device_message device_id)) st1)
                   else (None,
                         (emit (Stdout (''Selected Audio Output Device: ''
                                        @ to_string env audio_device @ nl)) st1)
                         \<lparr>audio_output_device_id := Some device_id\<rparr>))))"

fun invoke :: "action_id \<Rightarrow> env \<Rightarrow> action_fn" where
  "invoke Help env = help_action"
| "invoke Version env = version_action"
| "invoke InputFile env = input_file_action"
| "invoke ListAudioDevices env = list_audio_devices_action env"
| "invoke SetAudioOutput env = set_audio_output_action env"

subsection \<open>\<open>parse_command_line_arguments\<close> (lines 80 to 107)\<close>

text \<open>The inner loop: the first entry whose long or short form is the token.\<close>

fun find_command :: "string \<Rightarrow> command list \<Rightarrow> command option" where
  "find_command arg [] = None"
| "find_command arg (c # cs) =
     (if arg = argument c \<or> arg = argument_short c then Some c else find_command arg cs)"

text \<open>The outer loop, from index \<open>i\<close>; \<open>argc\<close> is \<open>length argv\<close>.\<close>

function parse_loop :: "env \<Rightarrow> string list \<Rightarrow> nat \<Rightarrow> pstate \<Rightarrow> status option \<times> pstate" where
  "parse_loop env argv i st =
     (if i < length argv then
        (case find_command (argv ! i) commands of
           None \<Rightarrow> parse_loop env argv (i + 1) st
         | Some c \<Rightarrow>
             (case invoke (action c) env
                     (if i + 1 < length argv then Some (argv ! (i + 1)) else None) st of
                (Some h, st') \<Rightarrow> (Some h, st')
              | (None, st') \<Rightarrow> parse_loop env argv (i + 1) st'))
      else (None, st))"
  by pat_completeness auto
termination
  by (relation "measure (\<lambda>(env, argv, i, st). length argv - i)") auto

declare parse_loop.simps [simp del]

definition parse_command_line_arguments ::
  "env \<Rightarrow> string list \<Rightarrow> pstate \<Rightarrow> status option \<times> pstate" where
  "parse_command_line_arguments env argv st =
     (if length argv < 2 then help_action (case argv of [] \<Rightarrow> None | a # _ \<Rightarrow> Some a) st
      else parse_loop env argv 1 (st\<lparr>program_name := argv ! 0\<rparr>))"

subsection \<open>Asynchronous events\<close>

text \<open>
  What reaches the process from outside the main thread: the interrupt signal, a track
  event sent by the engine, and the engine thread ending by itself.
\<close>

datatype async_event = SIGINT | TrackEvent eTrackEvent | EngineStopped

text \<open>The handler installed at lines 135 to 138.\<close>

definition sigint_handler :: "pstate \<Rightarrow> pstate" where
  "sigint_handler st = (emit (LogInfo ''SIGINT received, shutting down...'') st)\<lparr>running := False\<rparr>"

text \<open>The callback installed at lines 170 to 175.\<close>

definition event_callback :: "eTrackEvent \<Rightarrow> pstate \<Rightarrow> pstate" where
  "event_callback ev st =
     (if ev = PlaybackFinished
      then (emit (LogInfo ''Track playback finished.'') st)\<lparr>running := False\<rparr>
      else st)"

fun deliver_event :: "async_event \<Rightarrow> pstate \<Rightarrow> pstate" where
  "deliver_event SIGINT st = sigint_handler st"
| "deliver_event (TrackEvent ev) st = event_callback ev st"
| "deliver_event EngineStopped st = st\<lparr>engine_running := False\<rparr>"

fun deliver :: "async_event list \<Rightarrow> pstate \<Rightarrow> pstate" where
  "deliver [] st = st"
| "deliver (e # es) st = deliver es (deliver_event e st)"

text \<open>
  The events are delivered where the main thread can see a difference: \<open>before_loop\<close>
  between the return of \<open>play()\<close> and the first test of the loop condition, and the
  \<open>k\<close>-th entry of \<open>during_sleep\<close> during the \<open>k\<close>-th \<open>sleep_for\<close>. The flag is read
  by the loop only, so an interrupt that arrives earlier, once the handler is installed,
  has the effect of one in \<open>before_loop\<close>.
\<close>

record schedule =
  before_loop :: "async_event list"
  during_sleep :: "async_event list list"

subsection \<open>\<open>main\<close> (lines 109 to 193)\<close>

text \<open>
  The supervising loop of lines 181 to 190. \<open>None\<close>: the loop was left, \<open>return 0\<close>
  follows. \<open>Some Polling\<close>: every entry of the schedule was used and the loop goes on.
\<close>

fun poll_loop :: "pstate \<Rightarrow> async_event list list \<Rightarrow> status option \<times> pstate" where
  "poll_loop st [] =
     (let st1 = emit IsRunning st in
      if \<not> engine_running st1 then (None, st1)
      else if \<not> running st1
      then (None, (emits [LogInfo ''Shutting down engine...'', TrackStop, StopThread] st1)
                  \<lparr>engine_running := False\<rparr>)
      else (Some Polling, st1))"
| "poll_loop st (evs # rest) =
     (let st1 = emit IsRunning st in
      if \<not> engine_running st1 then (None, st1)
      else if \<not> running st1
      then (None, (emits [LogInfo ''Shutting down engine...'', TrackStop, StopThread] st1)
                  \<lparr>engine_running := False\<rparr>)
      else poll_loop (deliver evs (emit (SleepFor 100) st1)) rest)"

text \<open>
  Lines 180 to 192: the loop, entered with whatever arrived since \<open>play()\<close>, and the
  \<open>return 0\<close> after it.
\<close>

definition supervise :: "schedule \<Rightarrow> pstate \<Rightarrow> status \<times> pstate" where
  "supervise sched st =
     (case poll_loop (deliver (before_loop sched) st) (during_sleep sched) of
        (Some h, st') \<Rightarrow> (h, st')
      | (None, st') \<Rightarrow> (Exit 0, st'))"

text \<open>Lines 133 to 178: from \<open>engine.start_thread()\<close> to \<open>track->play()\<close>.\<close>

definition session :: "env \<Rightarrow> string \<Rightarrow> schedule \<Rightarrow> pstate \<Rightarrow> status \<times> pstate" where
  "session env path sched st =
     (let st1 = (emit StartThread st)\<lparr>engine_running := thread_starts env\<rparr>;
          st2 = emit SignalSIGINT st1;
          track_id = add_track env;
          st3 = emits [AddTrack, GetTrack track_id] st2
      in if \<not> get_track env track_id
         then (Exit (- 1), emit (LogError ''Failed to create track.'') st3)
         else
           (let st4 = (case audio_output_device_id st3 of
                         Some d \<Rightarrow> emit (GetAudioDevice d) st3
                       | None \<Rightarrow> emit GetDefaultAudioOutputDevice st3);
                audio_output = (case audio_output_device_id st3 of
                                  Some d \<Rightarrow> Some (get_audio_device env d)
                                | None \<Rightarrow> get_default_audio_output_device env);
                st5 = (case audio_output of
                         Some dev \<Rightarrow>
                           emits [AddAudioDeviceOutput dev,
                                  LogInfo (''Set audio output device: '' @ to_string env dev)] st4
                       | None \<Rightarrow> emit (LogError ''No default audio output device found.'') st4);
                st6 = emit (ReadWavFile path) st5
            in case read_wav_file env path of
                 None \<Rightarrow> (Exit (- 1), emit (LogError (''Failed to read WAV file: '' @ path)) st6)
               | Some wav \<Rightarrow>
                   supervise sched
                     (emits [AddAudioFileInput wav,
                             LogInfo (''Set WAV file as audio input: '' @ path),
                             SetEventCallback, Play] st6)))"

definition main :: "env \<Rightarrow> string list \<Rightarrow> schedule \<Rightarrow> status \<times> pstate" where
  "main env argv sched =
     (case parse_command_line_arguments env argv initial_state of
        (Some h, st) \<Rightarrow> (h, st)
      | (None, st) \<Rightarrow>
          (let st1 = emit (LogInfo ''Initializing WavAudioPlayer...'') st
           in case input_file_path st1 of
                None \<Rightarrow> (Exit 0, emit (LogInfo ''No input file specified. Exiting.'') st1)
              | Some path \<Rightarrow>
                  (let st2 = emit (IsWavFile path) st1
                   in if \<not> is_wav_file env path
                      then (Exit (- 1),
                            emit (LogError (''Specified input file is not a valid WAV file: ''
                                            @ path)) st2)
                      else session env path sched
                             (emit (LogInfo (''WAV file to be played: '' @ path)) st2))))"

subsection \<open>Observations on runs\<close>

text \<open>The two events whose handlers write the shutdown flag \<open>running\<close>.\<close>

definition is_trigger :: "async_event \<Rightarrow> bool" where
  "is_trigger e = (e = SIGINT \<or> e = TrackEvent PlaybackFinished)"



text \<open>What the option dispatcher can add to the trace.\<close>

definition parse_event :: "event \<Rightarrow> bool" where
  "parse_event e =
     (case e of Stdout m \<Rightarrow> True | Stderr m \<Rightarrow> True | GetAudioDevices \<Rightarrow> True
      | GetAudioDevice d \<Rightarrow> True | _ \<Rightarrow> False)"

text \<open>What the handlers and the supervising loop can add to the trace.\<close>

definition loop_event :: "event \<Rightarrow> bool" where
  "loop_event e =
     (case e of LogInfo m \<Rightarrow> True | IsRunning \<Rightarrow> True | SleepFor n \<Rightarrow> True
      | TrackStop \<Rightarrow> True | StopThread \<Rightarrow> True | _ \<Rightarrow> False)"

text \<open>The events that end the polling: a trigger, or the engine thread ending.\<close>

definition wakes :: "async_event \<Rightarrow> bool" where
  "wakes e = (is_trigger e \<or> e = EngineStopped)"

text \<open>
  The batch that ends the polling of a loop entered with the flag true and the engine
  running: the first one that holds a waking event. Later batches are not delivered.
\<close>

definition first_wake :: "async_event list list \<Rightarrow> async_event list" where
  "first_wake sleeps = (case dropWhile (\<lambda>b. \<not> list_ex wakes b) sleeps of [] \<Rightarrow> [] | b # _ \<Rightarrow> b)"





text \<open>No token after the program name is the long or the short form of the input option.\<close>

definition no_input_option :: "string list \<Rightarrow> bool" where
  "no_input_option argv =
     (''--input-file'' \<notin> set (drop 1 argv) \<and> ''-i'' \<notin> set (drop 1 argv))"

text \<open>The two teardown calls, and the teardown calls of a trace in the order made.\<close>

definition is_stop :: "event \<Rightarrow> bool" where
  "is_stop e = (e = TrackStop \<or> e = StopThread)"

definition stop_calls :: "event list \<Rightarrow> event list" where
  "stop_calls tr = filter is_stop tr"

definition teardown_ordered :: "event list \<Rightarrow> bool" where
  "teardown_ordered tr = (stop_calls tr = [] \<or> stop_calls tr = [TrackStop, StopThread])"

text \<open>The test of line 56: the device returned does not carry the id asked for.\<close>

definition lookup_fails :: "env \<Rightarrow> uint \<Rightarrow> bool" where
  "lookup_fails env d = (dev_id (get_audio_device env d) \<noteq> d)"

text \<open>A lookup in the trace whose answer fails that test.\<close>

definition failed_lookup :: "env \<Rightarrow> event \<Rightarrow> bool" where
  "failed_lookup env e = (case e of GetAudioDevice d \<Rightarrow> lookup_fails env d | _ \<Rightarrow> False)"



subsection \<open>A concrete machine\<close>

text \<open>
  One output device with id 0, which every lookup returns; one readable file,
  \<open>valid.wav\<close>; tracks and the engine thread come up.
\<close>

definition speakers :: device where
  "speakers = \<lparr>dev_id = 0, dev_name = ''Speakers'', input_channels = 0, output_channels = 2\<rparr>"

definition demo_env :: env where
  "demo_env =
     \<lparr>get_audio_devices = [speakers], get_audio_device = (\<lambda>i. speakers),
      get_default_audio_output_device = Some speakers, to_string = dev_name,
      is_wav_file = (\<lambda>p. p = ''valid.wav''),
      read_wav_file = (\<lambda>p. if p = ''valid.wav'' then Some (WavFile 0) else None),
      add_track = 0, get_track = (\<lambda>i. True), thread_starts = True\<rparr>"

definition quiet :: schedule where
  "quiet = \<lparr>before_loop = [], during_sleep = []\<rparr>"

section \<open>The flag under asynchronous events\<close>

lemma deliver_event_running:
  "running (deliver_event e st) = (running st \<and> \<not> is_trigger e)"
  by (cases e) (auto simp: is_trigger_def sigint_handler_def event_callback_def emit_def)

lemma deliver_running:
  "running (deliver es st) = (running st \<and> \<not> list_ex is_trigger es)"
  by (induction es arbitrary: st) (auto simp: deliver_event_running)




section \<open>What each phase adds to the trace\<close>

lemma emit_fields [simp]:
  "program_name (emit e st) = program_name st"
  "running (emit e st) = running st"
  "input_file_path (emit e st) = input_file_path st"
  "audio_output_device_id (emit e st) = audio_output_device_id st"
  "engine_running (emit e st) = engine_running st"
  "trace (emit e st) = trace st @ [e]"
  by (simp_all add: emit_def)

lemma emits_fields [simp]:
  "program_name (emits es st) = program_name st"
  "running (emits es st) = running st"
  "input_file_path (emits es st) = input_file_path st"
  "audio_output_device_id (emits es st) = audio_output_device_id st"
  "engine_running (emits es st) = engine_running st"
  "trace (emits es st) = trace st @ es"
  by (simp_all add: emits_def)

lemma invoke_filter:
  assumes "\<And>e. parse_event e \<Longrightarrow> \<not> P e"
  shows "filter P (trace (snd (invoke a env arg st))) = filter P (trace st)"
proof -
  have out: "\<not> P (Stdout m)" "\<not> P (Stderr m)" "\<not> P GetAudioDevices" "\<not> P (GetAudioDevice d)"
    for m d
    using assms by (simp_all add: parse_event_def)
  show ?thesis
    by (cases a)
      (simp_all add: help_action_def version_action_def input_file_action_def
        list_audio_devices_action_def set_audio_output_action_def emit_def emits_def out
        Let_def filter_empty_conv split: option.splits sum.splits)
qed

lemma parse_loop_filter:
  assumes "\<And>e. parse_event e \<Longrightarrow> \<not> P e"
  shows "filter P (trace (snd (parse_loop env argv i st))) = filter P (trace st)"
proof (induction env argv i st rule: parse_loop.induct)
  case (1 env argv i st)
  show ?case
  proof (cases "i < length argv")
    case False
    then show ?thesis by (subst parse_loop.simps) simp
  next
    case lt: True
    show ?thesis
    proof (cases "find_command (argv ! i) commands")
      case None
      with lt "1.IH"(1) show ?thesis
        by (subst parse_loop.simps) simp
    next
      case (Some c)
      let ?arg = "if i + 1 < length argv then Some (argv ! (i + 1)) else None"
      obtain r st' where inv: "invoke (action c) env ?arg st = (r, st')"
        by (cases "invoke (action c) env ?arg st")
      have tr: "filter P (trace st') = filter P (trace st)"
        using invoke_filter [OF assms, where a = "action c" and env = env and arg = ?arg and st = st] inv by simp
      show ?thesis
      proof (cases r)
        case None
        with lt Some inv "1.IH"(2) [OF lt Some inv [symmetric]] tr show ?thesis
          by (subst parse_loop.simps) simp
      next
        case (Some h)
        with lt \<open>find_command (argv ! i) commands = Some c\<close> inv tr show ?thesis
          by (subst parse_loop.simps) simp
      qed
    qed
  qed
qed

lemma parse_filter:
  assumes "\<And>e. parse_event e \<Longrightarrow> \<not> P e"
  shows "filter P (trace (snd (parse_command_line_arguments env argv initial_state))) = []"
proof -
  have "filter P (trace (snd (help_action a initial_state))) = []" for a
    using invoke_filter [OF assms, where a = Help and arg = a and st = initial_state]
    by (simp add: initial_state_def)
  moreover have "filter P (trace (snd (parse_loop env argv 1
                    (initial_state\<lparr>program_name := argv ! 0\<rparr>)))) = []"
    using parse_loop_filter [OF assms, where st = "initial_state\<lparr>program_name := argv ! 0\<rparr>"]
    by (simp add: initial_state_def)
  ultimately show ?thesis
    by (simp add: parse_command_line_arguments_def)
qed

lemma deliver_event_filter:
  assumes "\<And>e. loop_event e \<Longrightarrow> \<not> P e"
  shows "filter P (trace (deliver_event e st)) = filter P (trace st)"
proof -
  have "\<not> P (LogInfo m)" for m
    using assms by (simp add: loop_event_def)
  then show ?thesis
    by (cases e) (simp_all add: sigint_handler_def event_callback_def emit_def)
qed

lemma deliver_filter:
  assumes "\<And>e. loop_event e \<Longrightarrow> \<not> P e"
  shows "filter P (trace (deliver es st)) = filter P (trace st)"
  by (induction es arbitrary: st) (simp_all add: deliver_event_filter [OF assms])

lemma poll_loop_filter:
  assumes "\<And>e. loop_event e \<Longrightarrow> \<not> P e"
  shows "filter P (trace (snd (poll_loop st sleeps))) = filter P (trace st)"
proof -
  have out: "\<not> P (LogInfo m)" "\<not> P IsRunning" "\<not> P (SleepFor n)" "\<not> P TrackStop" "\<not> P StopThread"
    for m n
    using assms by (simp_all add: loop_event_def)
  show ?thesis
    by (induction sleeps arbitrary: st)
      (simp_all add: Let_def emit_def emits_def out deliver_filter [OF assms])
qed

lemma deliver_event_stop_calls: "stop_calls (trace (deliver_event e st)) = stop_calls (trace st)"
  by (cases e) (simp_all add: stop_calls_def is_stop_def sigint_handler_def event_callback_def emit_def)

lemma deliver_stop_calls: "stop_calls (trace (deliver es st)) = stop_calls (trace st)"
  by (induction es arbitrary: st) (simp_all add: deliver_event_stop_calls)

lemma poll_loop_stop_calls:
  "stop_calls (trace (snd (poll_loop st sleeps))) = stop_calls (trace st) \<or>
   stop_calls (trace (snd (poll_loop st sleeps))) = stop_calls (trace st) @ [TrackStop, StopThread]"
proof (induction sleeps arbitrary: st)
  case Nil
  show ?case
    by (simp add: Let_def emit_def emits_def stop_calls_def is_stop_def)
next
  case (Cons evs rest)
  have "stop_calls (trace (deliver evs (emit (SleepFor 100) (emit IsRunning st)))) = stop_calls (trace st)"
    by (simp add: deliver_stop_calls) (simp add: emit_def stop_calls_def is_stop_def)
  with Cons [of "deliver evs (emit (SleepFor 100) (emit IsRunning st))"] show ?case
    by (simp add: Let_def) (simp add: emit_def emits_def stop_calls_def is_stop_def)
qed

lemma parse_stop_calls:
  "stop_calls (trace (snd (parse_command_line_arguments env argv initial_state))) = []"
  unfolding stop_calls_def by (rule parse_filter) (auto simp: parse_event_def is_stop_def)

lemma supervise_filter:
  assumes "\<And>e. loop_event e \<Longrightarrow> \<not> P e"
  shows "filter P (trace (snd (supervise sched st))) = filter P (trace st)"
proof -
  obtain r st' where pl: "poll_loop (deliver (before_loop sched) st) (during_sleep sched) = (r, st')"
    by (cases "poll_loop (deliver (before_loop sched) st) (during_sleep sched)")
  have "filter P (trace st') = filter P (trace st)"
    using poll_loop_filter [OF assms, where st = "deliver (before_loop sched) st" and sleeps = "during_sleep sched"] pl
    by (simp add: deliver_filter [OF assms])
  with pl show ?thesis
    by (simp add: supervise_def split: option.splits)
qed

lemma supervise_teardown_ordered:
  assumes "stop_calls (trace st) = []"
  shows "teardown_ordered (trace (snd (supervise sched st)))"
proof -
  obtain r st' where pl: "poll_loop (deliver (before_loop sched) st) (during_sleep sched) = (r, st')"
    by (cases "poll_loop (deliver (before_loop sched) st) (during_sleep sched)")
  have "stop_calls (trace st') = [] \<or> stop_calls (trace st') = [TrackStop, StopThread]"
    using poll_loop_stop_calls [of "deliver (before_loop sched) st" "during_sleep sched"] pl assms
    by (simp add: deliver_stop_calls)
  with pl show ?thesis
    by (simp add: supervise_def teardown_ordered_def split: option.splits)
qed

lemma stop_calls_simps [simp]:
  "stop_calls [] = []"
  "stop_calls (e # es) = (if is_stop e then e # stop_calls es else stop_calls es)"
  "stop_calls (xs @ ys) = stop_calls xs @ stop_calls ys"
  by (simp_all add: stop_calls_def)

lemma session_teardown_ordered:
  assumes "stop_calls (trace st) = []"
  shows "teardown_ordered (trace (snd (session env path sched st)))"
proof (cases "get_track env (add_track env)")
  case False
  with assms show ?thesis
    by (simp add: session_def Let_def teardown_ordered_def is_stop_def)
next
  case True
  show ?thesis
  proof (cases "read_wav_file env path")
    case None
    with True assms show ?thesis
      by (simp add: session_def Let_def teardown_ordered_def is_stop_def split: option.splits)
  next
    case (Some wav)
    with True assms show ?thesis
      unfolding session_def Let_def
      by (auto split: option.splits intro!: supervise_teardown_ordered simp: is_stop_def)
  qed
qed

lemma invoke_frame:
  "running (snd (invoke a env arg st)) = running st \<and>
   engine_running (snd (invoke a env arg st)) = engine_running st"
  by (cases a)
    (simp_all add: help_action_def version_action_def input_file_action_def
      list_audio_devices_action_def set_audio_output_action_def Let_def
      split: option.splits sum.splits)

lemma parse_loop_frame:
  "running (snd (parse_loop env argv i st)) = running st \<and>
   engine_running (snd (parse_loop env argv i st)) = engine_running st"
proof (induction env argv i st rule: parse_loop.induct)
  case (1 env argv i st)
  show ?case
  proof (cases "i < length argv")
    case False
    then show ?thesis by (subst (1 2) parse_loop.simps) simp
  next
    case lt: True
    show ?thesis
    proof (cases "find_command (argv ! i) commands")
      case None
      with lt "1.IH"(1) show ?thesis
        by (subst (1 2) parse_loop.simps) simp
    next
      case (Some c)
      let ?arg = "if i + 1 < length argv then Some (argv ! (i + 1)) else None"
      obtain r st' where inv: "invoke (action c) env ?arg st = (r, st')"
        by (cases "invoke (action c) env ?arg st")
      have fr: "running st' = running st \<and> engine_running st' = engine_running st"
        using invoke_frame [of "action c" env ?arg st] inv by simp
      show ?thesis
      proof (cases r)
        case None
        with lt Some inv "1.IH"(2) [OF lt Some inv [symmetric]] fr show ?thesis
          by (subst (1 2) parse_loop.simps) simp
      next
        case (Some h)
        with lt \<open>find_command (argv ! i) commands = Some c\<close> inv fr show ?thesis
          by (subst (1 2) parse_loop.simps) simp
      qed
    qed
  qed
qed

lemma parse_frame:
  "running (snd (parse_command_line_arguments env argv initial_state)) \<and>
   \<not> engine_running (snd (parse_command_line_arguments env argv initial_state))"
  using parse_loop_frame [of env argv 1 "initial_state\<lparr>program_name := argv ! 0\<rparr>"]
    invoke_frame [of Help env _ initial_state]
  by (simp add: parse_command_line_arguments_def initial_state_def)

lemma deliver_event_engine_running:
  "engine_running (deliver_event e st) = (engine_running st \<and> e \<noteq> EngineStopped)"
  by (cases e) (auto simp: sigint_handler_def event_callback_def)

lemma deliver_engine_running:
  "engine_running (deliver es st) = (engine_running st \<and> \<not> list_ex (\<lambda>e. e = EngineStopped) es)"
  by (induction es arbitrary: st) (auto simp: deliver_event_engine_running)

lemma list_ex_wakes:
  "list_ex wakes es = (list_ex is_trigger es \<or> list_ex (\<lambda>e. e = EngineStopped) es)"
  by (induction es) (auto simp: wakes_def)

lemma poll_loop_status:
  "fst (poll_loop st sleeps) =
     (if running st \<and> engine_running st \<and> \<not> list_ex (list_ex wakes) sleeps
      then Some Polling else None)"
proof (induction sleeps arbitrary: st)
  case Nil
  show ?case by (simp add: Let_def)
next
  case (Cons evs rest)
  show ?case
    by (simp add: Let_def Cons deliver_running deliver_engine_running list_ex_wakes)
qed

lemma supervise_status:
  "fst (supervise sched st) =
     (if running st \<and> engine_running st \<and> \<not> list_ex wakes (before_loop sched)
         \<and> \<not> list_ex (list_ex wakes) (during_sleep sched)
      then Polling else Exit 0)"
proof -
  obtain r st' where pl: "poll_loop (deliver (before_loop sched) st) (during_sleep sched) = (r, st')"
    by (cases "poll_loop (deliver (before_loop sched) st) (during_sleep sched)")
  have "r = (if running st \<and> engine_running st \<and> \<not> list_ex wakes (before_loop sched)
         \<and> \<not> list_ex (list_ex wakes) (during_sleep sched) then Some Polling else None)"
    using poll_loop_status [of "deliver (before_loop sched) st" "during_sleep sched"] pl
    by (simp add: deliver_running deliver_engine_running list_ex_wakes)
  with pl show ?thesis
    by (simp add: supervise_def)
qed

lemma parse_not_mem:
  assumes "\<not> parse_event e"
  shows "e \<notin> set (trace (snd (parse_command_line_arguments env argv initial_state)))"
  using parse_filter [of "\<lambda>x. x = e" env argv] assms
  by (auto simp: filter_empty_conv)

lemma find_command_action:
  "find_command a commands =
     (if a = ''--help'' \<or> a = ''-h'' then Some (commands ! 0)
      else if a = ''--version'' \<or> a = ''-v'' then Some (commands ! 1)
      else if a = ''--input-file'' \<or> a = ''-i'' then Some (commands ! 2)
      else if a = ''--list-audio-devices'' \<or> a = ''-ld'' then Some (commands ! 3)
      else if a = ''--set-audio-output'' \<or> a = ''-o'' then Some (commands ! 4)
      else None)"
  by (simp add: commands_def Command_def)


lemma command_actions:
  "action (commands ! 0) = Help" "action (commands ! 1) = Version"
  "action (commands ! 2) = InputFile" "action (commands ! 3) = ListAudioDevices"
  "action (commands ! 4) = SetAudioOutput"
  by (simp_all add: commands_def Command_def)

lemma find_command_input_file:
  assumes "find_command a commands = Some c" and "action c = InputFile"
  shows "a = ''--input-file'' \<or> a = ''-i''"
proof (rule ccontr)
  assume neg: "\<not> (a = ''--input-file'' \<or> a = ''-i'')"
  have "c = commands ! 0 \<or> c = commands ! 1 \<or> c = commands ! 3 \<or> c = commands ! 4"
    using assms(1) neg unfolding find_command_action
    by (simp split: if_splits)
  with assms(2) show False
    using command_actions by auto
qed

lemma invoke_input_file_path:
  assumes "a \<noteq> InputFile"
  shows "input_file_path (snd (invoke a env arg st)) = input_file_path st"
  using assms
  by (cases a)
    (simp_all add: help_action_def version_action_def 
      list_audio_devices_action_def set_audio_output_action_def Let_def
      split: option.splits sum.splits)

lemma parse_loop_input_file_path:
  assumes "\<forall>j. i \<le> j \<and> j < length argv \<longrightarrow> argv ! j \<noteq> ''--input-file'' \<and> argv ! j \<noteq> ''-i''"
  shows "input_file_path (snd (parse_loop env argv i st)) = input_file_path st"
  using assms
proof (induction env argv i st rule: parse_loop.induct)
  case (1 env argv i st)
  from "1.prems" have later:
    "\<forall>j. i + 1 \<le> j \<and> j < length argv \<longrightarrow> argv ! j \<noteq> ''--input-file'' \<and> argv ! j \<noteq> ''-i''"
    by simp
  show ?case
  proof (cases "i < length argv")
    case False
    then show ?thesis by (subst parse_loop.simps) simp
  next
    case lt: True
    show ?thesis
    proof (cases "find_command (argv ! i) commands")
      case None
      with lt "1.IH"(1) [OF lt None later] show ?thesis
        by (subst parse_loop.simps) simp
    next
      case (Some c)
      let ?arg = "if i + 1 < length argv then Some (argv ! (i + 1)) else None"
      obtain r st' where inv: "invoke (action c) env ?arg st = (r, st')"
        by (cases "invoke (action c) env ?arg st")
      have "action c \<noteq> InputFile"
        using find_command_input_file [OF Some] "1.prems" lt by blast
      then have fr: "input_file_path st' = input_file_path st"
        using invoke_input_file_path [of "action c" env ?arg st] inv by simp
      show ?thesis
      proof (cases r)
        case None
        with lt Some inv "1.IH"(2) [OF lt Some inv [symmetric] _ later] fr show ?thesis
          by (subst parse_loop.simps) simp
      next
        case (Some h)
        with lt \<open>find_command (argv ! i) commands = Some c\<close> inv fr show ?thesis
          by (subst parse_loop.simps) simp
      qed
    qed
  qed
qed

lemma supervise_mem:
  assumes "\<not> loop_event e"
  shows "e \<in> set (trace (snd (supervise sched st))) \<longleftrightarrow> e \<in> set (trace st)"
proof -
  have "filter (\<lambda>x. x = e) (trace (snd (supervise sched st))) = filter (\<lambda>x. x = e) (trace st)"
    by (rule supervise_filter) (use assms in auto)
  then have "set (filter (\<lambda>x. x = e) (trace (snd (supervise sched st))))
             = set (filter (\<lambda>x. x = e) (trace st))"
    by simp
  then show ?thesis by auto
qed

lemma parse_result_frame:
  assumes "parse_command_line_arguments env argv initial_state = (r, st0)"
  shows "running st0" and "\<not> engine_running st0"
  using parse_frame [of env argv] assms by simp_all

lemma poll_loop_engine_down:
  assumes "\<not> engine_running st"
  shows "poll_loop st sleeps = (None, emit IsRunning st)"
  using assms by (cases sleeps) (simp_all add: Let_def)

lemma supervise_engine_down:
  assumes "\<not> engine_running st"
  shows "stop_calls (trace (snd (supervise sched st))) = stop_calls (trace st)"
proof -
  have "\<not> engine_running (deliver (before_loop sched) st)"
    using assms by (simp add: deliver_engine_running)
  then show ?thesis
    by (simp add: supervise_def poll_loop_engine_down deliver_stop_calls is_stop_def)
qed

section \<open>Device lookups\<close>

lemma failed_lookup_simps [simp]:
  "failed_lookup env (GetAudioDevice d) = lookup_fails env d"
  "failed_lookup env (Stdout m) = False"
  "failed_lookup env (Stderr m) = False"
  "failed_lookup env GetAudioDevices = False"
  by (simp_all add: failed_lookup_def)








lemma failed_lookup_others [simp]:
  "failed_lookup env (LogInfo m) = False"
  "failed_lookup env (LogError m) = False"
  "failed_lookup env GetDefaultAudioOutputDevice = False"
  "failed_lookup env (IsWavFile p) = False"
  "failed_lookup env (ReadWavFile p) = False"
  "failed_lookup env StartThread = False"
  "failed_lookup env SignalSIGINT = False"
  "failed_lookup env AddTrack = False"
  "failed_lookup env (GetTrack n) = False"
  "failed_lookup env (AddAudioDeviceOutput dev) = False"
  "failed_lookup env (AddAudioFileInput wav) = False"
  "failed_lookup env SetEventCallback = False"
  "failed_lookup env Play = False"
  by (simp_all add: failed_lookup_def)



section \<open>Running the program on the concrete machine\<close>

text \<open>The equations that unfold a run on given arguments.\<close>

lemmas run_defs =
  main_def session_def supervise_def parse_command_line_arguments_def parse_loop.simps
  commands_def Command_def help_action_def version_action_def input_file_action_def
  list_audio_devices_action_def set_audio_output_action_def sigint_handler_def
  event_callback_def initial_state_def demo_env_def speakers_def quiet_def Let_def

section \<open>The shutdown flag\<close>

lemma poll_loop_running:
  assumes "running st" and "\<not> list_ex (list_ex is_trigger) sleeps"
  shows "running (snd (poll_loop st sleeps))"
  using assms
  by (induction sleeps arbitrary: st) (simp_all add: Let_def deliver_running)

lemma supervise_running:
  assumes "running st" and "\<not> list_ex is_trigger (before_loop sched)"
    and "\<not> list_ex (list_ex is_trigger) (during_sleep sched)"
  shows "running (snd (supervise sched st))"
proof -
  have "running (snd (poll_loop (deliver (before_loop sched) st) (during_sleep sched)))"
    using assms by (intro poll_loop_running) (simp_all add: deliver_running)
  then show ?thesis
    by (cases "poll_loop (deliver (before_loop sched) st) (during_sleep sched)")
      (simp add: supervise_def split: option.splits)
qed

lemma session_running:
  assumes "running st" and "\<not> list_ex is_trigger (before_loop sched)"
    and "\<not> list_ex (list_ex is_trigger) (during_sleep sched)"
  shows "running (snd (session env path sched st))"
  using assms
  by (auto simp: session_def Let_def split: option.splits intro!: supervise_running)

lemma main_running:
  assumes "\<not> list_ex is_trigger (before_loop sched)"
    and "\<not> list_ex (list_ex is_trigger) (during_sleep sched)"
  shows "running (snd (main env argv sched))"
proof -
  obtain r st0 where p: "parse_command_line_arguments env argv initial_state = (r, st0)"
    by (cases "parse_command_line_arguments env argv initial_state")
  have on: "running st0"
    using parse_frame [of env argv] p by simp
  show ?thesis
  proof (cases r)
    case (Some h)
    with p on show ?thesis by (simp add: main_def)
  next
    case None
    with p on assms show ?thesis
      by (auto simp: main_def Let_def split: option.splits intro!: session_running)
  qed
qed

lemma first_wake_simps [simp]:
  "first_wake [] = []"
  "first_wake (b # bs) = (if list_ex wakes b then b else first_wake bs)"
  by (simp_all add: first_wake_def)















section \<open>The interrupt handler\<close>

text \<open>
  C3, as the specification states it: the handler only writes the flag. In the initial
  state the handler gives a state that differs from the one the flag write alone gives.
\<close>

theorem sigint_handler_only_flag_counterexample:
  "sigint_handler initial_state \<noteq> initial_state\<lparr>running := False\<rparr>"
  by (simp add: sigint_handler_def initial_state_def emit_def)

text \<open>
  C3, amended: the handler logs the message \<open>SIGINT received, shutting down...\<close> at
  level info and then sets the flag to false; the program name, the input path, the
  output device id and the engine are left as they were.
\<close>

theorem sigint_handler_logs_then_clears_flag:
  "sigint_handler st =
     st\<lparr>running := False,
        trace := trace st @ [LogInfo ''SIGINT received, shutting down...'']\<rparr>"
  by (simp add: sigint_handler_def emit_def)

section \<open>Teardown order\<close>

text \<open>
  C2. In every run, for every machine, argument list and schedule of asynchronous events,
  the teardown calls observed are either none at all or exactly \<open>track->stop()\<close> followed
  by \<open>engine.stop_thread()\<close>: the engine thread is never stopped before, or without, the
  transport being stopped. At the loop itself: when the flag is found false with the
  engine running, the two calls are made in that order; when \<open>is_running()\<close> reports
  false, the loop is left with neither call made.
\<close>

theorem stop_transport_precedes_stop_engine:
  "(stop_calls (trace (snd (main env argv sched))) = [] \<or>
    stop_calls (trace (snd (main env argv sched))) = [TrackStop, StopThread]) \<and>
   (engine_running st \<and> \<not> running st \<longrightarrow>
      stop_calls (trace (snd (poll_loop st sleeps)))
        = stop_calls (trace st) @ [TrackStop, StopThread]) \<and>
   (\<not> engine_running st \<longrightarrow>
      stop_calls (trace (snd (poll_loop st sleeps))) = stop_calls (trace st))"
proof (intro conjI impI)
  obtain r st0 where p: "parse_command_line_arguments env argv initial_state = (r, st0)"
    by (cases "parse_command_line_arguments env argv initial_state")
  have st0: "stop_calls (trace st0) = []"
    using parse_stop_calls [of env argv] p by simp
  have "teardown_ordered (trace (snd (main env argv sched)))"
  proof (cases r)
    case (Some h)
    with p st0 show ?thesis by (simp add: main_def teardown_ordered_def)
  next
    case None
    show ?thesis
    proof (cases "input_file_path st0")
      case no_path: None
      with p None st0 show ?thesis
        by (simp add: main_def Let_def teardown_ordered_def is_stop_def)
    next
      case (Some path)
      have "teardown_ordered (trace (snd (session env path sched
               (emit (LogInfo (''WAV file to be played: '' @ path))
                  (emit (IsWavFile path)
                     (emit (LogInfo ''Initializing WavAudioPlayer...'') st0))))))"
        by (rule session_teardown_ordered) (simp add: st0 is_stop_def)
      with p None Some st0 show ?thesis
        by (simp add: main_def Let_def is_stop_def teardown_ordered_def)
    qed
  qed
  then show "stop_calls (trace (snd (main env argv sched))) = [] \<or>
    stop_calls (trace (snd (main env argv sched))) = [TrackStop, StopThread]"
    by (simp add: teardown_ordered_def)
next
  assume "engine_running st \<and> \<not> running st"
  then show "stop_calls (trace (snd (poll_loop st sleeps)))
        = stop_calls (trace st) @ [TrackStop, StopThread]"
    by (cases sleeps) (simp_all add: Let_def is_stop_def)
next
  assume "\<not> engine_running st"
  then show "stop_calls (trace (snd (poll_loop st sleeps))) = stop_calls (trace st)"
    by (simp add: poll_loop_engine_down is_stop_def)
qed

text \<open>
  The three ways out of the loop on the concrete machine playing \<open>valid.wav\<close>: an
  interrupt and a finished playback each give the two calls in order, the engine thread
  ending by itself gives none.
\<close>

theorem stop_transport_precedes_stop_engine_witness:
  "stop_calls (trace (snd (main demo_env [''prog'', ''-i'', ''valid.wav'']
       \<lparr>before_loop = [], during_sleep = [[], [SIGINT]]\<rparr>))) = [TrackStop, StopThread] \<and>
   stop_calls (trace (snd (main demo_env [''prog'', ''-i'', ''valid.wav'']
       \<lparr>before_loop = [TrackEvent PlaybackFinished], during_sleep = []\<rparr>)))
     = [TrackStop, StopThread] \<and>
   stop_calls (trace (snd (main demo_env [''prog'', ''-i'', ''valid.wav'']
       \<lparr>before_loop = [], during_sleep = [[EngineStopped]]\<rparr>))) = [] \<and>
   stop_calls (trace (snd (poll_loop
       (initial_state\<lparr>running := False, engine_running := True\<rparr>) [[SIGINT]])))
     = [TrackStop, StopThread] \<and>
   stop_calls (trace (snd (poll_loop initial_state [[SIGINT]]))) = []"
  using stop_transport_precedes_stop_engine
          [where env = demo_env and argv = "[''prog'', ''-i'', ''valid.wav'']"
             and sched = "\<lparr>before_loop = [], during_sleep = [[], [SIGINT]]\<rparr>"
             and st = "initial_state\<lparr>running := False, engine_running := True\<rparr>"
             and sleeps = "[[SIGINT]]"]
        stop_transport_precedes_stop_engine
          [where env = demo_env and argv = "[]" and sched = quiet
             and st = initial_state and sleeps = "[[SIGINT]]"]
  by (simp add: run_defs is_stop_def)

section \<open>The guards on the input file\<close>

text \<open>
  C6. When option parsing has returned with an input path set and \<open>is_wav_file\<close> rejects
  that path, \<open>main\<close> logs the error and returns \<open>-1\<close>, a status other than 0. Nothing
  comes after the error message: the engine thread is not started, no track is
  created, no source is bound to a track and playback is not started.
\<close>

theorem invalid_input_file_exits_with_failure:
  assumes "parse_command_line_arguments env argv initial_state = (None, st0)"
    and "input_file_path st0 = Some path"
    and "\<not> is_wav_file env path"
  shows "main env argv sched =
           (Exit (- 1),
            emits [LogInfo ''Initializing WavAudioPlayer...'', IsWavFile path,
                   LogError (''Specified input file is not a valid WAV file: '' @ path)] st0)
         \<and> Exit (- 1) \<noteq> Exit 0
         \<and> StartThread \<notin> set (trace (snd (main env argv sched)))
         \<and> AddTrack \<notin> set (trace (snd (main env argv sched)))
         \<and> AddAudioFileInput wav \<notin> set (trace (snd (main env argv sched)))
         \<and> Play \<notin> set (trace (snd (main env argv sched)))"
proof -
  have m: "main env argv sched =
           (Exit (- 1),
            emits [LogInfo ''Initializing WavAudioPlayer...'', IsWavFile path,
                   LogError (''Specified input file is not a valid WAV file: '' @ path)] st0)"
    using assms by (simp add: main_def Let_def emit_def emits_def)
  have "e \<notin> set (trace st0)" if "\<not> parse_event e" for e
    using parse_not_mem [OF that, of env argv] assms(1) by simp
  then have "StartThread \<notin> set (trace st0)" "AddTrack \<notin> set (trace st0)"
    "AddAudioFileInput wav \<notin> set (trace st0)" "Play \<notin> set (trace st0)"
    by (simp_all add: parse_event_def)
  with m show ?thesis by simp
qed

theorem invalid_input_file_exits_with_failure_witness:
  "main demo_env [''prog'', ''--input-file'', ''notes.txt''] quiet =
     (Exit (- 1),
      initial_state
        \<lparr>program_name := ''prog'', input_file_path := Some ''notes.txt'',
         trace := [LogInfo ''Initializing WavAudioPlayer...'', IsWavFile ''notes.txt'',
                   LogError ''Specified input file is not a valid WAV file: notes.txt'']\<rparr>)
   \<and> StartThread \<notin> set (trace (snd (main demo_env [''prog'', ''--input-file'', ''notes.txt''] quiet)))
   \<and> Play \<notin> set (trace (snd (main demo_env [''prog'', ''--input-file'', ''notes.txt''] quiet)))"
proof -
  have p: "parse_command_line_arguments demo_env [''prog'', ''--input-file'', ''notes.txt'']
             initial_state =
           (None, initial_state\<lparr>program_name := ''prog'', input_file_path := Some ''notes.txt''\<rparr>)"
    by (simp add: run_defs)
  have q: "input_file_path
             (initial_state\<lparr>program_name := ''prog'', input_file_path := Some ''notes.txt''\<rparr>)
           = Some ''notes.txt''"
    by simp
  have r: "\<not> is_wav_file demo_env ''notes.txt''"
    by (simp add: demo_env_def)
  show ?thesis
    using invalid_input_file_exits_with_failure [OF p q r, of quiet "WavFile 0"]
    by (simp add: emits_def initial_state_def)
qed

lemma no_input_option_nth:
  assumes "no_input_option argv"
  shows "\<forall>j. 1 \<le> j \<and> j < length argv \<longrightarrow> argv ! j \<noteq> ''--input-file'' \<and> argv ! j \<noteq> ''-i''"
proof (intro allI impI)
  fix j assume j: "1 \<le> j \<and> j < length argv"
  then have "drop 1 argv ! (j - 1) = argv ! j" "j - 1 < length (drop 1 argv)"
    by auto
  then have "argv ! j \<in> set (drop 1 argv)"
    by (metis nth_mem)
  with assms show "argv ! j \<noteq> ''--input-file'' \<and> argv ! j \<noteq> ''-i''"
    by (auto simp: no_input_option_def)
qed

text \<open>
  C7, as the specification states it: every invocation without an input file option
  logs and exits with status 0. \<open>prog -o 99\<close> on the concrete machine, where only id 0
  exists, has no input file option; it exits with status 1 and logs nothing.
\<close>

theorem no_input_file_exits_0_counterexample:
  "no_input_option [''prog'', ''-o'', ''99'']
   \<and> main demo_env [''prog'', ''-o'', ''99''] quiet =
       (Exit 1,
        initial_state
          \<lparr>program_name := ''prog'',
           trace := [GetAudioDevice 99,
                     Stderr (''Error: No audio device found with ID 99.'' @ nl)]\<rparr>)"
  by (simp add: no_input_option_def run_defs stoi_def isspace_def isdigit_def digits_value_def
        no_device_message_def show_nat.simps digit_char_def emit_def)

text \<open>
  C7, amended. When no token after the program name is \<open>--input-file\<close> or \<open>-i\<close>, the
  engine thread is never started. If option parsing returns, \<open>main\<close> logs
  \<open>No input file specified. Exiting.\<close> and returns 0; if an option ends the process
  during parsing (help, version, device listing, or an output device option with an
  unknown, unreadable or missing id), the process ends there, in the status and the
  state that option left.
\<close>

theorem no_input_file_exits_0_once_parsed:
  assumes "no_input_option argv"
  shows "StartThread \<notin> set (trace (snd (main env argv sched))) \<and>
         main env argv sched =
           (case parse_command_line_arguments env argv initial_state of
              (Some h, st0) \<Rightarrow> (h, st0)
            | (None, st0) \<Rightarrow>
                (Exit 0, emits [LogInfo ''Initializing WavAudioPlayer...'',
                                LogInfo ''No input file specified. Exiting.''] st0))"
proof -
  obtain r st0 where p: "parse_command_line_arguments env argv initial_state = (r, st0)"
    by (cases "parse_command_line_arguments env argv initial_state")
  have no_start: "StartThread \<notin> set (trace st0)"
    using parse_not_mem [of StartThread env argv] p by (simp add: parse_event_def)
  have no_path: "input_file_path st0 = None" if "r = None"
  proof -
    from that p have "\<not> length argv < 2"
      by (auto simp: parse_command_line_arguments_def help_action_def)
    with p have "st0 = snd (parse_loop env argv 1 (initial_state\<lparr>program_name := argv ! 0\<rparr>))"
      by (simp add: parse_command_line_arguments_def)
    with parse_loop_input_file_path
           [OF no_input_option_nth [OF assms], of env "initial_state\<lparr>program_name := argv ! 0\<rparr>"]
    show ?thesis by (simp add: initial_state_def)
  qed
  show ?thesis
  proof (cases r)
    case None
    with p no_start no_path show ?thesis
      by (simp add: main_def Let_def emit_def emits_def)
  next
    case (Some h)
    with p no_start show ?thesis
      by (simp add: main_def)
  qed
qed

text \<open>
  \<open>prog -o 0\<close> on the concrete machine: the device is accepted, parsing returns, and the
  process logs and exits with status 0.
\<close>

theorem no_input_file_exits_0_once_parsed_witness:
  "main demo_env [''prog'', ''-o'', ''0''] quiet =
     (Exit 0,
      initial_state
        \<lparr>program_name := ''prog'', audio_output_device_id := Some 0,
         trace := [GetAudioDevice 0, Stdout (''Selected Audio Output Device: Speakers'' @ nl),
                   LogInfo ''Initializing WavAudioPlayer...'',
                   LogInfo ''No input file specified. Exiting.'']\<rparr>)
   \<and> StartThread \<notin> set (trace (snd (main demo_env [''prog'', ''-o'', ''0''] quiet)))"
proof -
  have a: "no_input_option [''prog'', ''-o'', ''0'']"
    by (simp add: no_input_option_def)
  have p: "parse_command_line_arguments demo_env [''prog'', ''-o'', ''0''] initial_state =
           (None, initial_state
                    \<lparr>program_name := ''prog'', audio_output_device_id := Some 0,
                     trace := [GetAudioDevice 0,
                               Stdout (''Selected Audio Output Device: Speakers'' @ nl)]\<rparr>)"
    by (simp add: run_defs stoi_def isspace_def isdigit_def digits_value_def emit_def)
  show ?thesis
    using no_input_file_exits_0_once_parsed [OF a, of demo_env quiet] p
    by (simp add: emits_def initial_state_def)
qed

section \<open>The scan of the argument list\<close>

text \<open>
  C9. When the token at index \<open>i\<close> is an option and a token follows it, the following
  token is given to the option's action as its argument, and, when the action returns,
  the next iteration looks that same token up in the option table and, if it is an
  option too, invokes its action: the argument is not skipped.
\<close>

theorem argument_token_is_scanned_again:
  assumes "i + 1 < length argv" and "find_command (argv ! i) commands = Some c"
  shows "parse_loop env argv i st =
     (case invoke (action c) env (Some (argv ! (i + 1))) st of
        (Some h, st') \<Rightarrow> (Some h, st')
      | (None, st') \<Rightarrow>
          (case find_command (argv ! (i + 1)) commands of
             None \<Rightarrow> parse_loop env argv (i + 2) st'
           | Some c' \<Rightarrow>
               (case invoke (action c') env
                       (if i + 2 < length argv then Some (argv ! (i + 2)) else None) st' of
                  (Some h, st'') \<Rightarrow> (Some h, st'')
                | (None, st'') \<Rightarrow> parse_loop env argv (i + 2) st'')))"
proof -
  from assms have lt: "i < length argv" by simp
  have e: "i + 1 + 1 = i + 2" by simp
  have step: "parse_loop env argv i st =
     (case invoke (action c) env (Some (argv ! (i + 1))) st of
        (Some h, st') \<Rightarrow> (Some h, st')
      | (None, st') \<Rightarrow> parse_loop env argv (i + 1) st')"
    using assms lt by (subst parse_loop.simps) simp
  have next_step: "parse_loop env argv (i + 1) st' =
     (case find_command (argv ! (i + 1)) commands of
             None \<Rightarrow> parse_loop env argv (i + 1 + 1) st'
           | Some c' \<Rightarrow>
               (case invoke (action c') env
                       (if i + 1 + 1 < length argv then Some (argv ! (i + 1 + 1)) else None) st' of
                  (Some h, st'') \<Rightarrow> (Some h, st'')
                | (None, st'') \<Rightarrow> parse_loop env argv (i + 1 + 1) st''))" for st'
    using assms(1) by (subst parse_loop.simps) simp
  show ?thesis
    unfolding step next_step e by (rule refl)
qed

text \<open>
  \<open>prog --input-file --version\<close>: \<open>--version\<close> becomes the input path and is then run
  as an option, which prints the version and exits with status 0.
\<close>

theorem argument_token_is_scanned_again_witness:
  "parse_loop demo_env [''prog'', ''--input-file'', ''--version''] 1 initial_state =
     (Some (Exit 0),
      initial_state\<lparr>input_file_path := Some ''--version'',
                     trace := [Stdout (''WavAudioPlayer Version 1.0.0'' @ nl)]\<rparr>)"
  using argument_token_is_scanned_again
          [of 1 "[''prog'', ''--input-file'', ''--version'']"
              "Command ''--input-file'' ''-i'' ''Specify input WAV file'' InputFile"
              demo_env initial_state]
  by (simp add: commands_def Command_def input_file_action_def version_action_def
        VERSION_NUMBER_def emit_def initial_state_def)

text \<open>
  C10. When the last token of the argument list is an option, the scan is the option's
  action invoked with the null pointer. The action of \<open>--input-file\<close> builds a
  \<open>std::string\<close> from its argument without a test: with the null pointer that is
  undefined behaviour, with any token it sets the input path and returns. So the action
  is defined exactly when a token follows the option.
\<close>

theorem option_as_last_token_gets_null:
  assumes "i + 1 = length argv" and "find_command (argv ! i) commands = Some c"
  shows "parse_loop env argv i st = invoke (action c) env None st \<and>
         invoke InputFile env None st = (Some Undefined_Behaviour, st) \<and>
         invoke InputFile env (Some a) st = (None, st\<lparr>input_file_path := Some a\<rparr>)"
proof -
  from assms have lt: "i < length argv" by simp
  have past: "parse_loop env argv (length argv) s = (None, s)" for s
    by (subst parse_loop.simps) simp
  have "parse_loop env argv i st = invoke (action c) env None st"
    using assms lt
    by (subst parse_loop.simps) (simp add: past split: prod.splits option.splits)
  then show ?thesis
    by (simp add: input_file_action_def)
qed

theorem option_as_last_token_gets_null_witness:
  "parse_loop demo_env [''prog'', ''-i''] 1 (initial_state\<lparr>program_name := ''prog''\<rparr>) =
     (Some Undefined_Behaviour, initial_state\<lparr>program_name := ''prog''\<rparr>) \<and>
   fst (main demo_env [''prog'', ''-i''] quiet) = Undefined_Behaviour"
  using option_as_last_token_gets_null
          [of 1 "[''prog'', ''-i'']"
              "Command ''--input-file'' ''-i'' ''Specify input WAV file'' InputFile"
              demo_env "initial_state\<lparr>program_name := ''prog''\<rparr>"]
  by (simp add: main_def parse_command_line_arguments_def commands_def Command_def)

section \<open>An unknown output device\<close>



section \<open>No output device\<close>

text \<open>
  C8. When option parsing has returned with a valid input path and no output device id,
  the machine has no default output device, and the track is created and the file is
  read, then \<open>main\<close> logs \<open>No default audio output device found.\<close>, binds no output
  device, binds the input source and starts playback. It does not exit with a failure:
  it returns 0 as soon as the engine thread is found not running or a trigger has
  arrived, and until then it goes on polling.
\<close>

theorem no_output_device_continues:
  assumes "parse_command_line_arguments env argv initial_state = (None, st0)"
    and "input_file_path st0 = Some path"
    and "is_wav_file env path"
    and "get_track env (add_track env)"
    and "read_wav_file env path = Some wav"
    and "audio_output_device_id st0 = None"
    and "get_default_audio_output_device env = None"
  shows "LogError ''No default audio output device found.'' \<in> set (trace (snd (main env argv sched)))
       \<and> AddAudioDeviceOutput dev \<notin> set (trace (snd (main env argv sched)))
       \<and> AddAudioFileInput wav \<in> set (trace (snd (main env argv sched)))
       \<and> Play \<in> set (trace (snd (main env argv sched)))
       \<and> fst (main env argv sched) =
           (if thread_starts env \<and> \<not> list_ex wakes (before_loop sched)
               \<and> \<not> list_ex (list_ex wakes) (during_sleep sched)
            then Polling else Exit 0)"
proof -
  define st7 where "st7 =
    emits [LogInfo ''Initializing WavAudioPlayer...'', IsWavFile path,
            LogInfo (''WAV file to be played: '' @ path), StartThread, SignalSIGINT,
            AddTrack, GetTrack (add_track env), GetDefaultAudioOutputDevice,
            LogError ''No default audio output device found.'', ReadWavFile path,
            AddAudioFileInput wav, LogInfo (''Set WAV file as audio input: '' @ path),
            SetEventCallback, Play] (st0\<lparr>engine_running := thread_starts env\<rparr>)"
  have m: "main env argv sched = supervise sched st7"
    using assms by (simp add: main_def session_def Let_def st7_def emit_def emits_def)
  have no_dev: "AddAudioDeviceOutput dev \<notin> set (trace st0)"
    using parse_not_mem [of "AddAudioDeviceOutput dev" env argv] assms(1)
    by (simp add: parse_event_def)
  have "running st7" "engine_running st7 = thread_starts env"
    using parse_result_frame [OF assms(1)] by (simp_all add: st7_def)
  then have status: "fst (supervise sched st7) =
           (if thread_starts env \<and> \<not> list_ex wakes (before_loop sched)
               \<and> \<not> list_ex (list_ex wakes) (during_sleep sched)
            then Polling else Exit 0)"
    by (simp add: supervise_status)
  show ?thesis
    unfolding m using no_dev status
    by (simp add: supervise_mem loop_event_def) (simp add: st7_def)
qed

theorem no_output_device_continues_witness:
  "LogError ''No default audio output device found.''
     \<in> set (trace (snd (main (demo_env\<lparr>get_default_audio_output_device := None\<rparr>)
                 [''prog'', ''-i'', ''valid.wav'']
                 \<lparr>before_loop = [], during_sleep = [[], [TrackEvent PlaybackFinished]]\<rparr>)))
   \<and> Play \<in> set (trace (snd (main (demo_env\<lparr>get_default_audio_output_device := None\<rparr>)
                 [''prog'', ''-i'', ''valid.wav'']
                 \<lparr>before_loop = [], during_sleep = [[], [TrackEvent PlaybackFinished]]\<rparr>)))
   \<and> fst (main (demo_env\<lparr>get_default_audio_output_device := None\<rparr>)
                 [''prog'', ''-i'', ''valid.wav'']
                 \<lparr>before_loop = [], during_sleep = [[], [TrackEvent PlaybackFinished]]\<rparr>) = Exit 0"
proof -
  let ?env = "demo_env\<lparr>get_default_audio_output_device := None\<rparr>"
  let ?st0 = "initial_state\<lparr>program_name := ''prog'', input_file_path := Some ''valid.wav''\<rparr>"
  have p: "parse_command_line_arguments ?env [''prog'', ''-i'', ''valid.wav''] initial_state
           = (None, ?st0)"
    by (simp add: run_defs)
  have h: "input_file_path ?st0 = Some ''valid.wav''" "is_wav_file ?env ''valid.wav''"
    "get_track ?env (add_track ?env)" "read_wav_file ?env ''valid.wav'' = Some (WavFile 0)"
    "audio_output_device_id ?st0 = None" "get_default_audio_output_device ?env = None"
    by (simp_all add: demo_env_def initial_state_def)
  show ?thesis
    using no_output_device_continues
            [OF p h, of "\<lparr>before_loop = [], during_sleep = [[], [TrackEvent PlaybackFinished]]\<rparr>"
                        speakers]
    by (simp add: demo_env_def wakes_def is_trigger_def)
qed

section \<open>Lifecycle errors\<close>

text \<open>
  C4, as the specification states it: a failed engine-thread start aborts the session
  with a failure status. \<open>main\<close> learns of the engine thread through \<open>is_running()\<close>
  alone. On the concrete machine with an engine that reports not running after
  \<open>start_thread()\<close>, \<open>prog -i valid.wav\<close> starts playback and exits with status 0.
\<close>

theorem failed_engine_start_aborts_counterexample:
  "\<not> thread_starts (demo_env\<lparr>thread_starts := False\<rparr>)
   \<and> fst (main (demo_env\<lparr>thread_starts := False\<rparr>) [''prog'', ''-i'', ''valid.wav''] quiet) = Exit 0
   \<and> Play \<in> set (trace (snd (main (demo_env\<lparr>thread_starts := False\<rparr>)
                                  [''prog'', ''-i'', ''valid.wav''] quiet)))"
  by (simp add: run_defs emit_def emits_def)

text \<open>
  C4, amended. Once option parsing has returned with a valid input path: if the track
  cannot be created, \<open>main\<close> logs \<open>Failed to create track.\<close> and returns \<open>-1\<close>, with no
  output device bound, no input source bound and playback not started. The start of the
  engine thread is not checked: if the engine reports not running after
  \<open>start_thread()\<close> and the track and the file are there, the session is set up and
  playback is started as usual, the loop is left at its first test, and \<open>main\<close> returns 0
  with no stop call made.
\<close>

theorem track_failure_fatal_engine_start_unchecked:
  assumes "parse_command_line_arguments env argv initial_state = (None, st0)"
    and "input_file_path st0 = Some path"
    and "is_wav_file env path"
  shows "(\<not> get_track env (add_track env) \<longrightarrow>
            fst (main env argv sched) = Exit (- 1)
          \<and> last (trace (snd (main env argv sched))) = LogError ''Failed to create track.''
          \<and> AddAudioDeviceOutput dev \<notin> set (trace (snd (main env argv sched)))
          \<and> AddAudioFileInput wav \<notin> set (trace (snd (main env argv sched)))
          \<and> Play \<notin> set (trace (snd (main env argv sched))))
       \<and> (get_track env (add_track env) \<and> read_wav_file env path = Some wav
            \<and> \<not> thread_starts env \<longrightarrow>
            fst (main env argv sched) = Exit 0
          \<and> StartThread \<in> set (trace (snd (main env argv sched)))
          \<and> AddAudioFileInput wav \<in> set (trace (snd (main env argv sched)))
          \<and> Play \<in> set (trace (snd (main env argv sched)))
          \<and> stop_calls (trace (snd (main env argv sched))) = [])"
proof (intro conjI impI)
  have quiet0: "e \<notin> set (trace st0)" if "\<not> parse_event e" for e
    using parse_not_mem [OF that, of env argv] assms(1) by simp
  {
    assume nt: "\<not> get_track env (add_track env)"
    have m: "main env argv sched =
        (Exit (- 1),
         emits [LogInfo ''Initializing WavAudioPlayer...'', IsWavFile path,
            LogInfo (''WAV file to be played: '' @ path), StartThread, SignalSIGINT,
            AddTrack, GetTrack (add_track env), LogError ''Failed to create track.'']
           (st0\<lparr>engine_running := thread_starts env\<rparr>))"
      using assms nt by (simp add: main_def session_def Let_def emit_def emits_def)
    show "fst (main env argv sched) = Exit (- 1)" by (simp add: m)
    show "last (trace (snd (main env argv sched))) = LogError ''Failed to create track.''"
      by (simp add: m)
    show "AddAudioDeviceOutput dev \<notin> set (trace (snd (main env argv sched)))"
      using quiet0 [of "AddAudioDeviceOutput dev"] by (simp add: m parse_event_def)
    show "AddAudioFileInput wav \<notin> set (trace (snd (main env argv sched)))"
      using quiet0 [of "AddAudioFileInput wav"] by (simp add: m parse_event_def)
    show "Play \<notin> set (trace (snd (main env argv sched)))"
      using quiet0 [of Play] by (simp add: m parse_event_def)
  }
  {
    assume a: "get_track env (add_track env) \<and> read_wav_file env path = Some wav
            \<and> \<not> thread_starts env"
    obtain st7 where m: "main env argv sched = supervise sched st7"
      and down: "\<not> engine_running st7"
      and tr: "\<exists>mid. trace st7 = trace st0 @ [LogInfo ''Initializing WavAudioPlayer...'',
                 IsWavFile path, LogInfo (''WAV file to be played: '' @ path), StartThread,
                 SignalSIGINT, AddTrack, GetTrack (add_track env)] @ mid
                 @ [ReadWavFile path, AddAudioFileInput wav,
                    LogInfo (''Set WAV file as audio input: '' @ path), SetEventCallback, Play]
                 \<and> stop_calls mid = []"
      using assms a
      by (auto simp: main_def session_def Let_def emit_def emits_def is_stop_def
            split: option.splits)
    have st0: "stop_calls (trace st0) = []"
      using parse_stop_calls [of env argv] assms(1) by simp
    show "fst (main env argv sched) = Exit 0"
      by (simp add: m supervise_status down)
    show "StartThread \<in> set (trace (snd (main env argv sched)))"
      using tr by (auto simp: m supervise_mem loop_event_def)
    show "AddAudioFileInput wav \<in> set (trace (snd (main env argv sched)))"
      using tr by (auto simp: m supervise_mem loop_event_def)
    show "Play \<in> set (trace (snd (main env argv sched)))"
      using tr by (auto simp: m supervise_mem loop_event_def)
    show "stop_calls (trace (snd (main env argv sched))) = []"
      using tr st0 by (auto simp: m supervise_engine_down [OF down] is_stop_def)
  }
qed

theorem track_failure_fatal_engine_start_unchecked_witness:
  "fst (main (demo_env\<lparr>get_track := (\<lambda>i. False)\<rparr>) [''prog'', ''-i'', ''valid.wav''] quiet)
     = Exit (- 1)
   \<and> Play \<notin> set (trace (snd (main (demo_env\<lparr>get_track := (\<lambda>i. False)\<rparr>)
                                  [''prog'', ''-i'', ''valid.wav''] quiet)))
   \<and> fst (main (demo_env\<lparr>thread_starts := False\<rparr>) [''prog'', ''-i'', ''valid.wav''] quiet)
     = Exit 0
   \<and> stop_calls (trace (snd (main (demo_env\<lparr>thread_starts := False\<rparr>)
                                 [''prog'', ''-i'', ''valid.wav''] quiet))) = []"
proof -
  let ?e1 = "demo_env\<lparr>get_track := (\<lambda>i. False)\<rparr>"
  let ?e2 = "demo_env\<lparr>thread_starts := False\<rparr>"
  let ?st0 = "initial_state\<lparr>program_name := ''prog'', input_file_path := Some ''valid.wav''\<rparr>"
  have p1: "parse_command_line_arguments ?e1 [''prog'', ''-i'', ''valid.wav''] initial_state
            = (None, ?st0)"
    by (simp add: run_defs)
  have p2: "parse_command_line_arguments ?e2 [''prog'', ''-i'', ''valid.wav''] initial_state
            = (None, ?st0)"
    by (simp add: run_defs)
  have h: "input_file_path ?st0 = Some ''valid.wav''"
    "is_wav_file ?e1 ''valid.wav''" "is_wav_file ?e2 ''valid.wav''"
    by (simp_all add: demo_env_def)
  show ?thesis
    using track_failure_fatal_engine_start_unchecked
            [OF p1 h(1) h(2), of quiet speakers "WavFile 0"]
          track_failure_fatal_engine_start_unchecked
            [OF p2 h(1) h(3), of quiet speakers "WavFile 0"]
    by (simp add: demo_env_def)
qed

end
